theory Spec2Isabelle
  imports Complex_Main
begin

section \<open>The type language of the declaration file\<close>

text \<open>
  The repository is one ambient declaration file, \<^verbatim>\<open>index.d.ts\<close>: type aliases and one
  interface, no executable statement. Its embedding is therefore an embedding of types.
  A type of the file becomes a term of \<open>ty\<close>, a script value becomes a term of
  \<open>jsval\<close>, and \<open>has_type\<close> says which values a type admits (structural typing: an
  object type asks for each of its properties, and tolerates further ones).

  \<^item> \<open>boolean\<close> is the union \<open>true | false\<close>, as in the language itself.
  \<^item> \<open>number\<close> is read as a real number; the non-finite doubles are left out, which
    only makes the type smaller than it is.
  \<^item> \<open>TIndex t\<close> is the index signature \<^verbatim>\<open>{ [key:string]: t }\<close>.
  \<^item> \<open>VPromise v\<close> is a promise fulfilled with \<open>v\<close>.
\<close>

datatype ty =
    TString | TNumber | TNull | TAny | TNever
  | TStrLit string | TBoolLit bool
  | TArray ty | TIndex ty | TObject "(string \<times> ty) list"
  | TUnion ty ty | TInter ty ty | TPromise ty

datatype jsval =
    VStr string | VNum real | VBool bool | VNull
  | VArr "jsval list" | VObj "(string \<times> jsval) list" | VPromise jsval

definition TBoolean :: ty where
  "TBoolean = TUnion (TBoolLit True) (TBoolLit False)"

fun field :: "jsval \<Rightarrow> string \<Rightarrow> jsval option" where
  "field (VObj kvs) k = map_of kvs k"
| "field _ k = None"

fun has_type :: "ty \<Rightarrow> jsval \<Rightarrow> bool" where
  "has_type TAny v = True"
| "has_type (TUnion a b) v = (has_type a v \<or> has_type b v)"
| "has_type (TInter a b) v = (has_type a v \<and> has_type b v)"
| "has_type TString (VStr s) = True"
| "has_type TNumber (VNum r) = True"
| "has_type TNull VNull = True"
| "has_type (TStrLit l) (VStr s) = (s = l)"
| "has_type (TBoolLit c) (VBool b) = (b = c)"
| "has_type (TArray t) (VArr vs) = list_all (has_type t) vs"
| "has_type (TIndex t) (VObj kvs) = list_all (\<lambda>kv. has_type t (snd kv)) kvs"
| "has_type (TObject fs) (VObj kvs) =
     list_all (\<lambda>f. case map_of kvs (fst f) of None \<Rightarrow> False
                                            | Some v \<Rightarrow> has_type (snd f) v) fs"
| "has_type (TPromise t) (VPromise v) = has_type t v"
| "has_type _ _ = False"

text \<open>
  \<open>extends s t\<close> is the assignability test behind the keyword \<^verbatim>\<open>extends\<close>, both in a
  type parameter's bound and in a conditional type. It is syntactic and errs on the side
  of False, but for \<open>any\<close>: as in the language, \<open>any\<close> is assignable to every type
  other than \<open>never\<close>.
\<close>

fun extends :: "ty \<Rightarrow> ty \<Rightarrow> bool" where
  "extends TNever t = True"
| "extends (TUnion a b) t = (extends a t \<and> extends b t)"
| "extends s TAny = True"
| "extends TAny t = (t \<noteq> TNever)"
| "extends s (TUnion a b) = (extends s a \<or> extends s b)"
| "extends s (TInter a b) = (extends s a \<and> extends s b)"
| "extends (TInter a b) t = (extends a t \<or> extends b t)"
| "extends (TStrLit x) TString = True"
| "extends (TArray s) (TArray t) = extends s t"
| "extends (TIndex s) (TIndex t) = extends s t"
| "extends (TPromise s) (TPromise t) = extends s t"
| "extends (TObject fs) (TObject gs) =
     list_all (\<lambda>g. case map_of fs (fst g) of None \<Rightarrow> False
                                           | Some s \<Rightarrow> extends s (snd g)) gs"
| "extends s t = (s = t)"

text \<open>
  \<open>conditional t u x y\<close> is the conditional type \<^verbatim>\<open>t extends u ? x : y\<close> whose checked
  type is a bare type parameter, instantiated at \<open>t\<close>: it distributes over the members of
  a union, maps \<open>never\<close> to \<open>never\<close>, and gives the union of both branches at \<open>any\<close>.
\<close>

fun conditional :: "ty \<Rightarrow> ty \<Rightarrow> ty \<Rightarrow> ty \<Rightarrow> ty" where
  "conditional (TUnion a b) u x y = TUnion (conditional a u x y) (conditional b u x y)"
| "conditional TNever u x y = TNever"
| "conditional TAny u x y = TUnion x y"
| "conditional t u x y = (if extends t u then x else y)"

text \<open>The type a promise is fulfilled with.\<close>

fun awaited :: "ty \<Rightarrow> ty" where
  "awaited (TPromise t) = t"
| "awaited t = t"

section \<open>The declared types of namespace Formulate\<close>

definition Headers :: ty where
  "Headers = TIndex TString"

definition FetchOptions :: ty where
  "FetchOptions = TObject
     [(''method'', TUnion (TStrLit ''GET'') (TUnion (TStrLit ''POST'')
         (TUnion (TStrLit ''OPTIONS'') (TUnion (TStrLit ''PUT'') (TStrLit ''DELETE''))))),
      (''headers'', Headers),
      (''body'', TString),
      (''redirect'', TUnion (TStrLit ''follow'') (TUnion (TStrLit ''error'') (TStrLit ''manual''))),
      (''referrer'', TString),
      (''integrity'', TString)]"

definition Response :: ty where
  "Response = TObject
     [(''text'', TString),
      (''headers'', Headers),
      (''url'', TString),
      (''ok'', TBoolean),
      (''redirected'', TBoolean),
      (''status'', TNumber),
      (''statusText'', TString),
      (''type'', TString)]"

definition Choice :: ty where
  "Choice = TObject
     [(''label'', TString),
      (''value'', TString),
      (''image'', TString)]"

definition OneOrMoreChoices :: "ty \<Rightarrow> ty" where
  "OneOrMoreChoices T = conditional T (TBoolLit True) Choice (TArray Choice)"

definition PaymentLineItem :: ty where
  "PaymentLineItem = TObject
     [(''amount'', TNumber),
      (''name'', TString),
      (''description'', TString),
      (''quantity'', TString),
      (''imageUrls'', TArray TString)]"

definition PaymentStatus :: ty where
  "PaymentStatus = TObject
     [(''status'', TUnion (TStrLit ''successful'')
         (TUnion (TStrLit ''stripe-not-set-up'') (TStrLit ''failed''))),
      (''id'', TString),
      (''lineItems'', TArray PaymentLineItem)]"

definition BannerOptions :: ty where
  "BannerOptions = TObject
     [(''unsplash'', TString),
      (''full'', TString),
      (''imageUrl'', TString),
      (''videoUrl'', TString)]"

definition Options :: ty where
  "Options = TObject
     [(''description'', TBoolean),
      (''ignore'', TBoolean),
      (''banner'', BannerOptions),
      (''name'', TString),
      (''optional'', TBoolean)]"

definition ShortOptions :: ty where
  "ShortOptions = TInter Options (TObject
     [(''email'', TBoolean),
      (''tel'', TBoolean),
      (''url'', TBoolean),
      (''value'', TBoolean)])"

definition LongOptions :: ty where
  "LongOptions = TInter Options (TObject
     [(''value'', TBoolean)])"

definition RatingOptions :: ty where
  "RatingOptions = TInter Options (TObject
     [(''max'', TBoolean)])"

definition SelectOptions :: "ty \<Rightarrow> ty" where
  "SelectOptions T = TInter Options (TObject
     [(''single'', T)])"

definition MultiOptions :: "ty \<Rightarrow> ty" where
  "MultiOptions T = TInter Options (TObject
     [(''single'', T),
      (''hideNumbers'', TBoolean)])"

definition PaymentOptions :: ty where
  "PaymentOptions = TInter Options (TObject
     [(''currency'', TString),
      (''items'', TArray PaymentLineItem)])"

section \<open>The interface Context\<close>

text \<open>
  A signature: the named parameters in order, the type of a rest parameter if there
  is one, and the return type. An operation is either plain or generic in one type parameter
  with a bound (\<^verbatim>\<open><T extends boolean>\<close>).
\<close>

record msig =
  params :: "(string \<times> ty) list"
  rest :: "ty option"
  ret :: ty

datatype operation = Plain msig | Generic ty "ty \<Rightarrow> msig"

fun instantiate :: "operation \<Rightarrow> ty \<Rightarrow> msig option" where
  "instantiate (Plain m) T = Some m"
| "instantiate (Generic bound f) T = (if extends T bound then Some (f T) else None)"

text \<open>
  A call passes the type check when it gives each named parameter a value of its type (no
  parameter of the file is optional) and, after them, only values of the rest type.
\<close>

definition accepts :: "msig \<Rightarrow> jsval list \<Rightarrow> bool" where
  "accepts m args =
     (case rest m of
        None \<Rightarrow> list_all2 has_type (map snd (params m)) args
      | Some t \<Rightarrow> length (params m) \<le> length args
          \<and> list_all2 has_type (map snd (params m)) (take (length (params m)) args)
          \<and> list_all (has_type t) (drop (length (params m)) args))"

definition Context_short :: msig where
  "Context_short = \<lparr>params = [(''question'', TString), (''options'', ShortOptions)],
     rest = None, ret = TPromise TString\<rparr>"

definition Context_long :: msig where
  "Context_long = \<lparr>params = [(''question'', TString), (''options'', ShortOptions)],
     rest = None, ret = TPromise TString\<rparr>"

definition Context_rating :: msig where
  "Context_rating = \<lparr>params = [(''question'', TString), (''options'', RatingOptions)],
     rest = None, ret = TPromise TString\<rparr>"

definition Context_select :: "ty \<Rightarrow> msig" where
  "Context_select T = \<lparr>params = [(''question'', TString),
       (''choices'', TArray (TUnion TString Choice)), (''options'', SelectOptions T)],
     rest = None, ret = TPromise (OneOrMoreChoices T)\<rparr>"

definition Context_multi :: "ty \<Rightarrow> msig" where
  "Context_multi T = \<lparr>params = [(''question'', TString),
       (''choices'', TArray (TUnion TString Choice)), (''options'', MultiOptions T)],
     rest = None, ret = TPromise (OneOrMoreChoices T)\<rparr>"

definition Context_payment :: msig where
  "Context_payment = \<lparr>params = [(''question'', TString), (''options'', PaymentOptions)],
     rest = None, ret = TPromise PaymentStatus\<rparr>"

definition Context_hidden :: msig where
  "Context_hidden = \<lparr>params = [(''question'', TString), (''answer'', TString),
       (''options'', Options)],
     rest = None, ret = TPromise TString\<rparr>"

definition Context_statement :: msig where
  "Context_statement = \<lparr>params = [(''statement'', TString), (''options'', Options)],
     rest = None, ret = TPromise TNull\<rparr>"

definition Context_fetch :: msig where
  "Context_fetch = \<lparr>params = [(''resource'', TString), (''options'', FetchOptions)],
     rest = None, ret = TPromise Response\<rparr>"

definition Context_log :: msig where
  "Context_log = \<lparr>params = [], rest = Some TAny, ret = TNull\<rparr>"

definition Context_error :: msig where
  "Context_error = \<lparr>params = [], rest = Some TAny, ret = TNull\<rparr>"

definition Context_interpolate :: msig where
  "Context_interpolate = \<lparr>params = [(''answer'', TAny)], rest = None, ret = TString\<rparr>"

definition Context_interp :: msig where
  "Context_interp = \<lparr>params = [(''answer'', TAny)], rest = None, ret = TString\<rparr>"

definition Context_i :: msig where
  "Context_i = \<lparr>params = [(''answer'', TAny)], rest = None, ret = TString\<rparr>"

definition Context_param :: msig where
  "Context_param = \<lparr>params = [(''key'', TString)], rest = None, ret = TUnion TString TNull\<rparr>"

definition Context :: "(string \<times> operation) list" where
  "Context =
     [(''short'', Plain Context_short),
      (''long'', Plain Context_long),
      (''rating'', Plain Context_rating),
      (''select'', Generic TBoolean Context_select),
      (''multi'', Generic TBoolean Context_multi),
      (''payment'', Plain Context_payment),
      (''hidden'', Plain Context_hidden),
      (''statement'', Plain Context_statement),
      (''fetch'', Plain Context_fetch),
      (''log'', Plain Context_log),
      (''error'', Plain Context_error),
      (''interpolate'', Plain Context_interpolate),
      (''interp'', Plain Context_interp),
      (''i'', Plain Context_i),
      (''param'', Plain Context_param)]"

text \<open>The three global bindings, each of type Context.\<close>

definition globals :: "(string \<times> (string \<times> operation) list) list" where
  "globals = [(''f'', Context), (''form'', Context), (''formulate'', Context)]"

section \<open>Auxiliary notions for the statements\<close>

text \<open>The properties an object type declares, an intersection declaring those of both sides.\<close>

fun fields_of :: "ty \<Rightarrow> (string \<times> ty) list" where
  "fields_of (TObject fs) = fs"
| "fields_of (TInter a b) = fields_of a @ fields_of b"
| "fields_of _ = []"

text \<open>The types a signature names: parameters, rest parameter, result.\<close>

definition signature_types :: "msig \<Rightarrow> ty list" where
  "signature_types m =
     map snd (params m) @ (case rest m of None \<Rightarrow> [] | Some t \<Rightarrow> [t]) @ [ret m]"

text \<open>
  \<open>mentions t x\<close>: the type \<open>x\<close> occurs in the type \<open>t\<close>, as \<open>t\<close> itself or anywhere
  inside it. Aliases are transparent, so this is an occurrence of the aliased type.
\<close>

fun mentions :: "ty \<Rightarrow> ty \<Rightarrow> bool" where
  "mentions (TArray a) x = (x = TArray a \<or> mentions a x)"
| "mentions (TIndex a) x = (x = TIndex a \<or> mentions a x)"
| "mentions (TPromise a) x = (x = TPromise a \<or> mentions a x)"
| "mentions (TUnion a b) x = (x = TUnion a b \<or> mentions a x \<or> mentions b x)"
| "mentions (TInter a b) x = (x = TInter a b \<or> mentions a x \<or> mentions b x)"
| "mentions (TObject fs) x = (x = TObject fs \<or> list_ex (\<lambda>f. mentions (snd f) x) fs)"
| "mentions t x = (x = t)"

text \<open>An object with one property set (or overridden); other values are left alone.\<close>

fun with_field :: "jsval \<Rightarrow> string \<Rightarrow> jsval \<Rightarrow> jsval" where
  "with_field (VObj kvs) k x = VObj ((k, x) # kvs)"
| "with_field v k x = v"

text \<open>
  The comment on \<^verbatim>\<open>PaymentLineItem.amount\<close> reads: a non-negative integer in cents
  representing how much to charge. As a predicate on values:
\<close>

fun non_negative_integer :: "jsval \<Rightarrow> bool" where
  "non_negative_integer (VNum r) = (0 \<le> r \<and> of_int \<lfloor>r\<rfloor> = r)"
| "non_negative_integer _ = False"

section \<open>Sample values\<close>

definition sample_banner :: jsval where
  "sample_banner = VObj
     [(''unsplash'', VStr ''sea,sky''), (''full'', VStr ''yes''),
      (''imageUrl'', VStr ''https://example.org/b.png''),
      (''videoUrl'', VStr ''https://example.org/b.mp4'')]"

definition sample_base :: "(string \<times> jsval) list" where
  "sample_base =
     [(''description'', VBool True), (''ignore'', VBool False), (''banner'', sample_banner),
      (''name'', VStr ''colour''), (''optional'', VBool False)]"

definition sample_options :: jsval where
  "sample_options = VObj sample_base"

definition sample_short_options :: jsval where
  "sample_short_options = VObj (sample_base @
     [(''email'', VBool False), (''tel'', VBool False), (''url'', VBool True),
      (''value'', VBool False)])"

definition sample_long_options :: jsval where
  "sample_long_options = VObj (sample_base @ [(''value'', VBool False)])"

definition sample_select_options :: "bool \<Rightarrow> jsval" where
  "sample_select_options b = VObj (sample_base @ [(''single'', VBool b)])"

definition sample_multi_options :: "bool \<Rightarrow> jsval" where
  "sample_multi_options b = VObj (sample_base @
     [(''single'', VBool b), (''hideNumbers'', VBool True)])"

definition sample_choice :: jsval where
  "sample_choice = VObj
     [(''label'', VStr ''Red''), (''value'', VStr ''red''),
      (''image'', VStr ''https://example.org/red.png'')]"

definition sample_line_item :: "real \<Rightarrow> jsval" where
  "sample_line_item r = VObj
     [(''amount'', VNum r), (''name'', VStr ''Mug''), (''description'', VStr ''A mug''),
      (''quantity'', VStr ''1''), (''imageUrls'', VArr [VStr ''https://example.org/mug.png''])]"

definition sample_payment_options :: "real \<Rightarrow> jsval" where
  "sample_payment_options r = VObj (sample_base @
     [(''currency'', VStr ''usd''), (''items'', VArr [sample_line_item r])])"

definition sample_payment_status :: jsval where
  "sample_payment_status = VObj
     [(''status'', VStr ''failed''), (''id'', VStr ''pi_1''),
      (''lineItems'', VArr [sample_line_item 500])]"

definition sample_fetch_options :: jsval where
  "sample_fetch_options = VObj
     [(''method'', VStr ''POST''), (''headers'', VObj [(''Accept'', VStr ''text/plain'')]),
      (''body'', VStr ''x=1''), (''redirect'', VStr ''follow''), (''referrer'', VStr ''about''),
      (''integrity'', VStr ''sha256-0'')]"

section \<open>Which values the basic types admit\<close>

lemmas decls = Headers_def FetchOptions_def Response_def Choice_def PaymentLineItem_def
  PaymentStatus_def BannerOptions_def Options_def ShortOptions_def LongOptions_def
  RatingOptions_def SelectOptions_def MultiOptions_def PaymentOptions_def

lemmas samples = sample_banner_def sample_base_def sample_options_def
  sample_short_options_def sample_long_options_def sample_select_options_def
  sample_multi_options_def sample_choice_def sample_line_item_def
  sample_payment_options_def sample_payment_status_def sample_fetch_options_def

lemma has_type_TString: "has_type TString v = (\<exists>s. v = VStr s)"
  by (cases v) auto

lemma has_type_TNumber: "has_type TNumber v = (\<exists>r. v = VNum r)"
  by (cases v) auto

lemma has_type_TNull: "has_type TNull v = (v = VNull)"
  by (cases v) auto

lemma has_type_TStrLit: "has_type (TStrLit l) v = (v = VStr l)"
  by (cases v) auto

lemma has_type_TBoolLit: "has_type (TBoolLit c) v = (v = VBool c)"
  by (cases v) auto

lemma has_type_TBoolean: "has_type TBoolean v = (\<exists>b. v = VBool b)"
  by (cases v) (auto simp: TBoolean_def)

lemma has_type_TArray:
  "has_type (TArray t) v = (\<exists>vs. v = VArr vs \<and> list_all (has_type t) vs)"
  by (cases v) auto

lemma has_type_TPromise:
  "has_type (TPromise t) v = (\<exists>r. v = VPromise r \<and> has_type t r)"
  by (cases v) auto

lemma has_type_TObject_Nil: "has_type (TObject []) v = (\<exists>kvs. v = VObj kvs)"
  by (cases v) auto

lemma has_type_TObject_Cons:
  "has_type (TObject ((k, t) # fs)) v =
     ((\<exists>x. field v k = Some x \<and> has_type t x) \<and> has_type (TObject fs) v)"
  by (cases v) (auto split: option.splits)

lemmas has_type_iffs = has_type_TString has_type_TNumber has_type_TNull has_type_TStrLit
  has_type_TBoolLit has_type_TBoolean has_type_TArray has_type_TPromise
  has_type_TObject_Nil has_type_TObject_Cons

lemma OneOrMoreChoices_lit:
  "OneOrMoreChoices (TBoolLit b) = (if b then Choice else TArray Choice)"
  by (simp add: OneOrMoreChoices_def)

text \<open>
  At the instantiation \<open>T = boolean\<close> the conditional type distributes, and the result is
  the union of both shapes.
\<close>

lemma OneOrMoreChoices_boolean:
  "OneOrMoreChoices TBoolean = TUnion Choice (TArray Choice)"
  by (simp add: OneOrMoreChoices_def TBoolean_def)

text \<open>At the instantiation \<open>T = any\<close> the result is the union of both shapes as well.\<close>

lemma OneOrMoreChoices_any:
  "OneOrMoreChoices TAny = TUnion Choice (TArray Choice)"
  by (simp add: OneOrMoreChoices_def)

lemma literal_within_bound: "extends (TBoolLit b) TBoolean"
  by (simp add: TBoolean_def)

lemma any_within_bound: "extends TAny TBoolean"
  by (simp add: TBoolean_def)

text \<open>
  Whatever the type argument, the conditional type is built from Choice, arrays of Choice,
  unions and \<open>never\<close> only.
\<close>

lemma OneOrMoreChoices_mentions:
  assumes "mentions (OneOrMoreChoices T) x"
  shows "x = TNever \<or> mentions Choice x \<or> x = TArray Choice \<or> (\<exists>a b. x = TUnion a b)"
  using assms unfolding OneOrMoreChoices_def
  by (induction T "TBoolLit True" Choice "TArray Choice" rule: conditional.induct)
    (auto split: if_splits)

text \<open>
  The assignability test is sound for \<open>has_type\<close> away from \<open>any\<close>: a value of a type
  that mentions no \<open>any\<close> has every type that type extends.
\<close>

lemma extends_object:
  assumes ih: "\<And>g s x. g \<in> set gs \<Longrightarrow> map_of fs (fst g) = Some s \<Longrightarrow> \<not> mentions s TAny
                 \<Longrightarrow> extends s (snd g) \<Longrightarrow> has_type s x \<Longrightarrow> has_type (snd g) x"
    and free: "\<not> list_ex (\<lambda>f. mentions (snd f) TAny) fs"
    and ext: "list_all (\<lambda>g. case map_of fs (fst g) of None \<Rightarrow> False
                                                    | Some s \<Rightarrow> extends s (snd g)) gs"
    and ty: "has_type (TObject fs) v"
  shows "has_type (TObject gs) v"
proof (cases v)
  case (VObj kvs)
  have "case map_of kvs (fst g) of None \<Rightarrow> False | Some x \<Rightarrow> has_type (snd g) x"
    if g: "g \<in> set gs" for g
  proof -
    from ext g obtain s where s: "map_of fs (fst g) = Some s" "extends s (snd g)"
      by (auto simp: list_all_iff split: option.splits)
    from s(1) have mem: "(fst g, s) \<in> set fs"
      by (rule map_of_SomeD)
    with free have nf: "\<not> mentions s TAny"
      by (fastforce simp: list_ex_iff)
    from mem ty VObj obtain x where x: "map_of kvs (fst g) = Some x" "has_type s x"
      by (fastforce simp: list_all_iff split: option.splits)
    from ih [OF g s(1) nf s(2) x(2)] x(1) show ?thesis
      by simp
  qed
  with VObj show ?thesis
    by (simp add: list_all_iff)
qed (use ty in auto)

lemma extends_sound:
  "\<not> mentions s TAny \<Longrightarrow> extends s t \<Longrightarrow> has_type s v \<Longrightarrow> has_type t v"
proof (induction s t arbitrary: v rule: extends.induct; simp; blast?)
  fix x v
  show "has_type (TStrLit x) v \<Longrightarrow> has_type TString v"
    by (cases v) auto
next
  fix s t v
  assume "\<And>v. has_type s v \<Longrightarrow> has_type t v" and "has_type (TArray s) v"
  then show "has_type (TArray t) v"
    by (cases v) (auto simp: list_all_iff)
next
  fix s t v
  assume "\<And>v. has_type s v \<Longrightarrow> has_type t v" and "has_type (TIndex s) v"
  then show "has_type (TIndex t) v"
    by (cases v) (auto simp: list_all_iff)
next
  fix s t v
  assume "\<And>v. has_type s v \<Longrightarrow> has_type t v" and "has_type (TPromise s) v"
  then show "has_type (TPromise t) v"
    by (cases v) auto
next
  fix fs gs v
  assume "\<And>x x2 v. \<lbrakk>x \<in> set gs; map_of fs (fst x) = Some x2; \<not> mentions x2 TAny;
             extends x2 (snd x); has_type x2 v\<rbrakk> \<Longrightarrow> has_type (snd x) v"
    and "\<not> list_ex (\<lambda>f. mentions (snd f) TAny) fs"
    and "list_all (\<lambda>g. case map_of fs (fst g) of None \<Rightarrow> False
               | Some s \<Rightarrow> extends s (snd g)) gs"
    and "has_type (TObject fs) v"
  then show "has_type (TObject gs) v"
    by (rule extends_object)
qed

lemmas sigs = Context_short_def Context_long_def Context_rating_def Context_select_def
  Context_multi_def Context_payment_def Context_hidden_def Context_statement_def
  Context_fetch_def Context_log_def Context_error_def Context_interpolate_def
  Context_interp_def Context_i_def Context_param_def

lemma field_Some_obj: "field v k = Some x \<Longrightarrow> \<exists>kvs. v = VObj kvs"
  by (cases v) auto

section \<open>Resolution shape of select and multi\<close>

text \<open>
  C1. For a boolean \<open>T\<close>, \<open>select\<close> instantiated at the literal type of \<open>T\<close> takes an
  options bag whose \<open>single\<close> is \<open>T\<close>, and the promise it returns is fulfilled with one
  Choice (an object, not an array) when \<open>T\<close> is true and with an array of Choice when
  \<open>T\<close> is false.
\<close>

theorem select_single_resolution:
  assumes "accepts (Context_select (TBoolLit T)) [q, cs, opts]"
    and "has_type (ret (Context_select (TBoolLit T))) p"
  shows "instantiate (Generic TBoolean Context_select) (TBoolLit T)
           = Some (Context_select (TBoolLit T))
       \<and> awaited (ret (Context_select (TBoolLit T))) = (if T then Choice else TArray Choice)
       \<and> field opts ''single'' = Some (VBool T)
       \<and> (\<exists>r. p = VPromise r \<and>
            (if T then has_type Choice r \<and> (\<forall>vs. r \<noteq> VArr vs)
             else (\<exists>vs. r = VArr vs \<and> list_all (has_type Choice) vs)))"
  using assms
  by (auto simp: accepts_def Context_select_def SelectOptions_def OneOrMoreChoices_lit
      literal_within_bound has_type_iffs Choice_def)

theorem select_single_resolution_witness:
  "accepts (Context_select (TBoolLit True))
     [VStr ''Colour?'', VArr [VStr ''Blue'', sample_choice], sample_select_options True]
   \<and> has_type (ret (Context_select (TBoolLit True))) (VPromise sample_choice)
   \<and> awaited (ret (Context_select (TBoolLit True))) = Choice
   \<and> field (sample_select_options True) ''single'' = Some (VBool True)
   \<and> has_type Choice sample_choice"
  using select_single_resolution [of True "VStr ''Colour?''" "VArr [VStr ''Blue'', sample_choice]"
      "sample_select_options True" "VPromise sample_choice"]
  by (simp add: accepts_def Context_select_def OneOrMoreChoices_lit decls samples TBoolean_def)



section \<open>Required properties\<close>

text \<open>
  C2, as stated, fails: the file marks no property optional, so a value without
  \<open>image\<close> is not a Choice.
\<close>

theorem Choice_without_image_rejected:
  "\<not> has_type Choice (VObj [(''label'', VStr ''Red''), (''value'', VStr ''red'')])"
  by (simp add: Choice_def)

text \<open>
  C2, amended. A value is a Choice exactly when it has the three properties \<open>label\<close>,
  \<open>value\<close> and \<open>image\<close>, each a string: all three are required.
\<close>

theorem Choice_all_fields_required:
  "has_type Choice v =
     ((\<exists>l. field v ''label'' = Some (VStr l)) \<and> (\<exists>x. field v ''value'' = Some (VStr x))
      \<and> (\<exists>u. field v ''image'' = Some (VStr u)))"
  by (auto simp: Choice_def has_type_iffs dest: field_Some_obj)

theorem Choice_all_fields_required_witness:
  "has_type Choice sample_choice
   \<and> field sample_choice ''image'' = Some (VStr ''https://example.org/red.png'')"
  using Choice_all_fields_required [of sample_choice]
  by (simp add: samples)

text \<open>
  C3, as stated, fails: the empty bag, and a bag with \<open>name\<close> alone, are not Options
  values, and \<open>statement\<close> and \<open>hidden\<close> reject the empty bag.
\<close>

theorem empty_options_rejected:
  "\<not> has_type Options (VObj [])
   \<and> \<not> has_type Options (VObj [(''name'', VStr ''colour'')])
   \<and> \<not> accepts Context_statement [VStr ''Welcome'', VObj []]
   \<and> \<not> accepts Context_hidden [VStr ''source'', VStr ''ad'', VObj []]"
  by (simp add: accepts_def sigs decls)

text \<open>
  C3, amended. A value is an Options bag exactly when all five properties are present
  with their declared types (\<open>description\<close>, \<open>ignore\<close> and \<open>optional\<close> boolean,
  \<open>banner\<close> a BannerOptions, \<open>name\<close> a string), and the two operations that take the
  base bag, \<open>hidden\<close> and \<open>statement\<close>, accept a call exactly when its bag is one.
\<close>

theorem Options_all_fields_required:
  "has_type Options v =
     ((\<exists>b. field v ''description'' = Some (VBool b))
      \<and> (\<exists>b. field v ''ignore'' = Some (VBool b))
      \<and> (\<exists>x. field v ''banner'' = Some x \<and> has_type BannerOptions x)
      \<and> (\<exists>s. field v ''name'' = Some (VStr s))
      \<and> (\<exists>b. field v ''optional'' = Some (VBool b)))
   \<and> accepts Context_hidden [q, a, v]
       = (has_type TString q \<and> has_type TString a \<and> has_type Options v)
   \<and> accepts Context_statement [s, v] = (has_type TString s \<and> has_type Options v)"
  by (auto simp: Options_def has_type_iffs accepts_def sigs dest: field_Some_obj)

theorem Options_all_fields_required_witness:
  "has_type Options sample_options
   \<and> accepts Context_hidden [VStr ''source'', VStr ''ad'', sample_options]
   \<and> accepts Context_statement [VStr ''Welcome'', sample_options]"
  using Options_all_fields_required [of sample_options "VStr ''source''" "VStr ''ad''" "VStr ''Welcome''"]
  by (simp add: samples decls accepts_def sigs TBoolean_def)

section \<open>Closed enumerations\<close>

text \<open>
  C5. \<open>payment\<close> resolves to a PaymentStatus, and in every PaymentStatus value the
  property \<open>status\<close> is one of the three strings successful, stripe-not-set-up, failed.
\<close>

theorem PaymentStatus_status_closed:
  assumes "has_type PaymentStatus v"
  shows "awaited (ret Context_payment) = PaymentStatus
       \<and> (field v ''status'' = Some (VStr ''successful'')
          \<or> field v ''status'' = Some (VStr ''stripe-not-set-up'')
          \<or> field v ''status'' = Some (VStr ''failed''))"
  using assms
  by (auto simp: PaymentStatus_def Context_payment_def has_type_iffs)

theorem PaymentStatus_status_closed_witness:
  "has_type PaymentStatus sample_payment_status
   \<and> field sample_payment_status ''status'' = Some (VStr ''failed'')"
  using PaymentStatus_status_closed [of sample_payment_status]
  by (simp add: samples PaymentStatus_def PaymentLineItem_def)

text \<open>
  C6. \<open>fetch\<close> accepts a call exactly when its resource is a string and its options are
  a FetchOptions value; in every FetchOptions value \<open>method\<close> is one of GET, POST,
  OPTIONS, PUT, DELETE and \<open>redirect\<close> is one of follow, error, manual.
\<close>

theorem FetchOptions_method_redirect_closed:
  assumes "has_type FetchOptions opts"
  shows "accepts Context_fetch [r, opts] = has_type TString r
       \<and> (field opts ''method'' = Some (VStr ''GET'')
          \<or> field opts ''method'' = Some (VStr ''POST'')
          \<or> field opts ''method'' = Some (VStr ''OPTIONS'')
          \<or> field opts ''method'' = Some (VStr ''PUT'')
          \<or> field opts ''method'' = Some (VStr ''DELETE''))
       \<and> (field opts ''redirect'' = Some (VStr ''follow'')
          \<or> field opts ''redirect'' = Some (VStr ''error'')
          \<or> field opts ''redirect'' = Some (VStr ''manual''))"
proof -
  have a: "accepts Context_fetch [r, opts] = has_type TString r"
    using assms by (simp add: accepts_def Context_fetch_def)
  have m: "field opts ''method'' = Some (VStr ''GET'')
          \<or> field opts ''method'' = Some (VStr ''POST'')
          \<or> field opts ''method'' = Some (VStr ''OPTIONS'')
          \<or> field opts ''method'' = Some (VStr ''PUT'')
          \<or> field opts ''method'' = Some (VStr ''DELETE'')"
    using assms by (auto simp: FetchOptions_def has_type_iffs)
  have d: "field opts ''redirect'' = Some (VStr ''follow'')
          \<or> field opts ''redirect'' = Some (VStr ''error'')
          \<or> field opts ''redirect'' = Some (VStr ''manual'')"
    using assms by (auto simp: FetchOptions_def has_type_iffs)
  from a m d show ?thesis by blast
qed

theorem FetchOptions_method_redirect_closed_witness:
  "has_type FetchOptions sample_fetch_options
   \<and> accepts Context_fetch [VStr ''https://example.org/api'', sample_fetch_options]
   \<and> field sample_fetch_options ''method'' = Some (VStr ''POST'')
   \<and> field sample_fetch_options ''redirect'' = Some (VStr ''follow'')"
  using FetchOptions_method_redirect_closed [of sample_fetch_options "VStr ''https://example.org/api''"]
  by (simp add: samples FetchOptions_def Headers_def)

section \<open>The amount of a line item\<close>

text \<open>
  C7, as stated, fails: a line item whose amount is \<open>-1\<close>, and one whose amount is
  \<open>1/2\<close>, are PaymentLineItem values, and \<open>payment\<close> accepts the first among its items.
\<close>

theorem negative_and_fractional_amount_admitted:
  "has_type PaymentLineItem (sample_line_item (- 1))
   \<and> field (sample_line_item (- 1)) ''amount'' = Some (VNum (- 1))
   \<and> \<not> non_negative_integer (VNum (- 1))
   \<and> has_type PaymentLineItem (sample_line_item (1 / 2))
   \<and> field (sample_line_item (1 / 2)) ''amount'' = Some (VNum (1 / 2))
   \<and> \<not> non_negative_integer (VNum (1 / 2))
   \<and> accepts Context_payment [VStr ''Pay'', sample_payment_options (- 1)]"
  by (simp add: samples decls accepts_def Context_payment_def TBoolean_def)

text \<open>
  C7, amended. In every PaymentLineItem value the property \<open>amount\<close> is present and is a
  number, and the type puts no further bound on it: replacing the amount of a line item
  by any number \<open>a\<close> gives a line item again.
\<close>

theorem PaymentLineItem_amount_any_number:
  assumes "has_type PaymentLineItem v"
  shows "(\<exists>r. field v ''amount'' = Some (VNum r))
       \<and> has_type PaymentLineItem (with_field v ''amount'' (VNum a))"
  using assms
  by (cases v) (auto simp: PaymentLineItem_def has_type_TNumber split: option.splits)

theorem PaymentLineItem_amount_any_number_witness:
  "has_type PaymentLineItem (sample_line_item 500)
   \<and> field (sample_line_item 500) ''amount'' = Some (VNum 500)
   \<and> has_type PaymentLineItem (with_field (sample_line_item 500) ''amount'' (VNum (- 1)))"
  using PaymentLineItem_amount_any_number [of "sample_line_item 500" "- 1"]
  by (simp add: samples PaymentLineItem_def)

section \<open>The options of long\<close>

text \<open>
  C8. The options parameter of \<open>long\<close> is declared as ShortOptions, a type other than
  LongOptions; every accepted call of \<open>long\<close> gives a ShortOptions bag, with its
  \<open>email\<close>, \<open>tel\<close> and \<open>url\<close> properties; and no operation of Context uses
  LongOptions: at no instantiation is it a parameter, rest or result type, and it occurs
  nowhere inside one either, unless the type argument itself brings it in (so not at
  \<open>true\<close>, \<open>false\<close>, \<open>boolean\<close> or \<open>any\<close>). The signature of \<open>long\<close> does mention
  ShortOptions.
\<close>

theorem long_takes_ShortOptions:
  assumes "accepts Context_long [q, opts]"
  shows "map_of Context ''long'' = Some (Plain Context_long)
       \<and> map_of (params Context_long) ''options'' = Some ShortOptions
       \<and> ShortOptions \<noteq> LongOptions
       \<and> has_type ShortOptions opts
       \<and> (\<exists>e t u. field opts ''email'' = Some (VBool e) \<and> field opts ''tel'' = Some (VBool t)
            \<and> field opts ''url'' = Some (VBool u))
       \<and> (\<forall>n m T sg. (n, m) \<in> set Context \<longrightarrow> instantiate m T = Some sg
            \<longrightarrow> LongOptions \<notin> set (signature_types sg))
       \<and> (\<forall>n m T sg. (n, m) \<in> set Context \<longrightarrow> instantiate m T = Some sg
            \<longrightarrow> \<not> mentions T LongOptions
            \<longrightarrow> list_all (\<lambda>t. \<not> mentions t LongOptions) (signature_types sg))
       \<and> list_all (\<lambda>T. \<not> mentions T LongOptions)
            [TBoolLit True, TBoolLit False, TBoolean, TAny]
       \<and> list_ex (\<lambda>t. mentions t ShortOptions) (signature_types Context_long)"
proof -
  have o: "has_type ShortOptions opts"
    using assms by (simp add: accepts_def Context_long_def)
  have f: "\<exists>e t u. field opts ''email'' = Some (VBool e) \<and> field opts ''tel'' = Some (VBool t)
            \<and> field opts ''url'' = Some (VBool u)"
    using o by (auto simp: ShortOptions_def has_type_iffs)
  have d: "map_of Context ''long'' = Some (Plain Context_long)
       \<and> map_of (params Context_long) ''options'' = Some ShortOptions
       \<and> ShortOptions \<noteq> LongOptions"
    by (simp add: Context_def Context_long_def ShortOptions_def LongOptions_def)
  have u: "\<forall>n m T sg. (n, m) \<in> set Context \<longrightarrow> instantiate m T = Some sg
            \<longrightarrow> LongOptions \<notin> set (signature_types sg)"
    by (auto simp: Context_def sigs signature_types_def decls TBoolean_def
        split: if_splits)
  have c: "\<not> mentions (OneOrMoreChoices T) LongOptions" for T
    using OneOrMoreChoices_mentions [of T LongOptions]
    by (auto simp: decls TBoolean_def)
  have plain: "list_all (\<lambda>sg. list_all (\<lambda>t. \<not> mentions t LongOptions) (signature_types sg))
      [Context_short, Context_long, Context_rating, Context_payment, Context_hidden,
       Context_statement, Context_fetch, Context_log, Context_error, Context_interpolate,
       Context_interp, Context_i, Context_param]"
    by (simp add: sigs signature_types_def decls TBoolean_def)
  have sel: "list_all (\<lambda>t. \<not> mentions t LongOptions) (signature_types (Context_select T))"
    if "\<not> mentions T LongOptions" for T
    using that c [of T]
    by (simp add: Context_select_def signature_types_def decls TBoolean_def)
  have mul: "list_all (\<lambda>t. \<not> mentions t LongOptions) (signature_types (Context_multi T))"
    if "\<not> mentions T LongOptions" for T
    using that c [of T]
    by (simp add: Context_multi_def signature_types_def decls TBoolean_def)
  have w: "\<forall>n m T sg. (n, m) \<in> set Context \<longrightarrow> instantiate m T = Some sg
            \<longrightarrow> \<not> mentions T LongOptions
            \<longrightarrow> list_all (\<lambda>t. \<not> mentions t LongOptions) (signature_types sg)"
    using plain sel mul
    by (auto simp: Context_def split: if_splits)
  have a: "list_all (\<lambda>T. \<not> mentions T LongOptions)
            [TBoolLit True, TBoolLit False, TBoolean, TAny]"
    by (simp add: decls TBoolean_def)
  have p: "list_ex (\<lambda>t. mentions t ShortOptions) (signature_types Context_long)"
    by (simp add: Context_long_def signature_types_def ShortOptions_def)
  from o f d u w a p show ?thesis by blast
qed

theorem long_takes_ShortOptions_witness:
  "accepts Context_long [VStr ''Tell us more'', sample_short_options]
   \<and> field sample_short_options ''email'' = Some (VBool False)
   \<and> has_type LongOptions sample_long_options
   \<and> \<not> accepts Context_long [VStr ''Tell us more'', sample_long_options]
   \<and> LongOptions \<notin> set (signature_types Context_long)
   \<and> list_all (\<lambda>t. \<not> mentions t LongOptions) (signature_types Context_long)
   \<and> list_all (\<lambda>t. \<not> mentions t LongOptions) (signature_types (Context_select TBoolean))"
proof -
  have h: "accepts Context_long [VStr ''Tell us more'', sample_short_options]"
    by (simp add: accepts_def Context_long_def samples decls TBoolean_def)
  have m1: "(''long'', Plain Context_long) \<in> set Context"
    and m2: "(''select'', Generic TBoolean Context_select) \<in> set Context"
    by (simp_all add: Context_def)
  have i1: "instantiate (Plain Context_long) TBoolean = Some Context_long"
    and i2: "instantiate (Generic TBoolean Context_select) TBoolean
               = Some (Context_select TBoolean)"
    by (simp_all add: TBoolean_def)
  note t = long_takes_ShortOptions [OF h]
  from t have top: "\<forall>n m T sg. (n, m) \<in> set Context \<longrightarrow> instantiate m T = Some sg
            \<longrightarrow> LongOptions \<notin> set (signature_types sg)"
    by blast
  from t have deep: "\<forall>n m T sg. (n, m) \<in> set Context \<longrightarrow> instantiate m T = Some sg
            \<longrightarrow> \<not> mentions T LongOptions
            \<longrightarrow> list_all (\<lambda>t. \<not> mentions t LongOptions) (signature_types sg)"
    by blast
  from t have arg: "\<not> mentions TBoolean LongOptions"
    by simp
  from top m1 i1 have "LongOptions \<notin> set (signature_types Context_long)"
    by blast
  moreover from deep m1 i1 arg
  have "list_all (\<lambda>t. \<not> mentions t LongOptions) (signature_types Context_long)"
    by blast
  moreover from deep m2 i2 arg
  have "list_all (\<lambda>t. \<not> mentions t LongOptions) (signature_types (Context_select TBoolean))"
    by blast
  moreover have "field sample_short_options ''email'' = Some (VBool False)"
    and "has_type LongOptions sample_long_options"
    and "\<not> accepts Context_long [VStr ''Tell us more'', sample_long_options]"
    by (simp_all add: accepts_def Context_long_def samples decls TBoolean_def)
  ultimately show ?thesis
    using h by blast
qed

text \<open>
  The occurrence test tells used types from unused ones: the types the operations do use
  are found by it, and it would find LongOptions were \<open>long\<close> to return a promise of it
  or \<open>rating\<close> to take it in a union.
\<close>

lemma mentions_finds_used_types:
  "mentions (ret Context_payment) PaymentStatus
   \<and> mentions (ret Context_payment) PaymentLineItem
   \<and> mentions (ret Context_fetch) Response
   \<and> mentions (ret (Context_select (TBoolLit b))) Choice
   \<and> list_ex (\<lambda>t. mentions t BannerOptions) (signature_types Context_statement)
   \<and> mentions (TPromise LongOptions) LongOptions
   \<and> mentions (TUnion LongOptions RatingOptions) LongOptions"
  by (simp add: sigs signature_types_def decls OneOrMoreChoices_lit)

section \<open>The choices of select and multi\<close>

text \<open>
  C9. The \<open>choices\<close> parameter of \<open>select\<close> and of \<open>multi\<close> is an array of
  \<open>string | Choice\<close>: a list whose elements are each a string or a Choice, in any
  mixture, has that type, and whether either operation accepts the call then depends on
  the question and the options alone.
\<close>

theorem choices_mix_strings_and_Choice:
  assumes "list_all (\<lambda>c. has_type TString c \<or> has_type Choice c) cs"
  shows "map_of (params (Context_select T)) ''choices'' = Some (TArray (TUnion TString Choice))
       \<and> map_of (params (Context_multi T)) ''choices'' = Some (TArray (TUnion TString Choice))
       \<and> has_type (TArray (TUnion TString Choice)) (VArr cs)
       \<and> accepts (Context_select T) [q, VArr cs, so]
           = (has_type TString q \<and> has_type (SelectOptions T) so)
       \<and> accepts (Context_multi T) [q, VArr cs, mo]
           = (has_type TString q \<and> has_type (MultiOptions T) mo)"
proof -
  have h: "list_all (has_type (TUnion TString Choice)) cs"
    using assms by (simp add: list_all_iff)
  show ?thesis
    by (simp add: accepts_def Context_select_def Context_multi_def h)
qed

theorem choices_mix_strings_and_Choice_witness:
  "list_all (\<lambda>c. has_type TString c \<or> has_type Choice c)
     [VStr ''Blue'', sample_choice, VStr ''Green'']
   \<and> accepts (Context_select (TBoolLit True))
       [VStr ''Colour?'', VArr [VStr ''Blue'', sample_choice, VStr ''Green''],
        sample_select_options True]
   \<and> accepts (Context_multi (TBoolLit False))
       [VStr ''Colour?'', VArr [VStr ''Blue'', sample_choice, VStr ''Green''],
        sample_multi_options False]"
  using choices_mix_strings_and_Choice [of "[VStr ''Blue'', sample_choice, VStr ''Green'']"
      "TBoolLit True" "VStr ''Colour?''" "sample_select_options True"
      "sample_multi_options True"]
    choices_mix_strings_and_Choice [of "[VStr ''Blue'', sample_choice, VStr ''Green'']"
      "TBoolLit False" "VStr ''Colour?''" "sample_select_options False"
      "sample_multi_options False"]
  by (simp add: samples decls TBoolean_def)

section \<open>The description of an options bag\<close>

text \<open>
  C10. \<open>description\<close> is declared boolean in the base Options bag and so in each of its
  extensions; a value of any of these types carries a boolean there, never a string; and
  every operation of Context with an \<open>options\<close> parameter, \<open>fetch\<close> apart, takes one of
  these types.
\<close>

theorem description_declared_boolean:
  assumes "has_type Options v \<or> has_type ShortOptions v \<or> has_type LongOptions v
         \<or> has_type RatingOptions v \<or> has_type (SelectOptions T) v
         \<or> has_type (MultiOptions T) v \<or> has_type PaymentOptions v"
  shows "list_all (\<lambda>t. map_of (fields_of t) ''description'' = Some TBoolean)
           [Options, ShortOptions, LongOptions, RatingOptions, SelectOptions T,
            MultiOptions T, PaymentOptions]
       \<and> (\<exists>b. field v ''description'' = Some (VBool b))
       \<and> (\<forall>s. field v ''description'' \<noteq> Some (VStr s))
       \<and> (\<forall>n m sg t. (n, m) \<in> set Context \<longrightarrow> instantiate m T = Some sg
            \<longrightarrow> map_of (params sg) ''options'' = Some t \<longrightarrow> n \<noteq> ''fetch''
            \<longrightarrow> t \<in> {Options, ShortOptions, RatingOptions, SelectOptions T,
                      MultiOptions T, PaymentOptions})"
proof -
  have b: "has_type Options v"
    using assms by (auto simp: decls)
  have d: "\<exists>b. field v ''description'' = Some (VBool b)"
    using b by (auto simp: Options_def has_type_iffs)
  have t: "list_all (\<lambda>t. map_of (fields_of t) ''description'' = Some TBoolean)
           [Options, ShortOptions, LongOptions, RatingOptions, SelectOptions T,
            MultiOptions T, PaymentOptions]"
    by (simp add: decls)
  have c: "\<forall>n m sg t. (n, m) \<in> set Context \<longrightarrow> instantiate m T = Some sg
            \<longrightarrow> map_of (params sg) ''options'' = Some t \<longrightarrow> n \<noteq> ''fetch''
            \<longrightarrow> t \<in> {Options, ShortOptions, RatingOptions, SelectOptions T,
                      MultiOptions T, PaymentOptions}"
    by (auto simp: Context_def sigs split: if_splits)
  from d t c show ?thesis by auto
qed

theorem description_declared_boolean_witness:
  "has_type ShortOptions sample_short_options
   \<and> field sample_short_options ''description'' = Some (VBool True)
   \<and> \<not> has_type Options (with_field sample_options ''description'' (VStr ''More about this''))
   \<and> map_of (fields_of Options) ''description'' = Some TBoolean"
  using description_declared_boolean [of sample_short_options "TBoolLit True"]
  by (simp add: samples decls TBoolean_def)

end
